theory Spec2Isabelle
  imports Main
begin

section \<open>Python values used by client.py\<close>

text \<open>
  The model of \<open>client.py\<close>: the functions of the module and the methods of
  \<open>ChatClient\<close>, with the window reduced to the state the methods read and write.
  A Python string is a \<open>string\<close> here, its characters being code points below 256;
  a Python integer is an \<open>int\<close>.

  Exceptions that the modelled code can raise. \<open>ProviderError\<close> stands for whatever
  \<open>openai.ChatCompletion.create\<close> raises; \<open>DomainError\<close> for the failure of
  \<open>ConversationTree.change_branch\<close>; both carry the text of \<open>str(e)\<close>.
\<close>

datatype exn =
    ValueError
  | IndexError
  | TypeError
  | KeyError
  | AttributeError
  | UnicodeDecodeError
  | ProviderError string
  | DomainError string

definition nl :: string where
  "nl = [CHR 0x0A]"

text \<open>\<open>str.isspace\<close> on the code points below 256.\<close>

definition isspace :: "char \<Rightarrow> bool" where
  "isspace c = (let n = of_char c :: nat in
     (9 \<le> n \<and> n \<le> 13) \<or> (28 \<le> n \<and> n \<le> 32) \<or> n = 133 \<or> n = 160)"

definition isdigit :: "char \<Rightarrow> bool" where
  "isdigit c = (let n = of_char c :: nat in 48 \<le> n \<and> n \<le> 57)"

definition digit_val :: "char \<Rightarrow> nat" where
  "digit_val c = of_char c - 48"

definition startswith :: "string \<Rightarrow> string \<Rightarrow> bool" where
  "startswith s p = (take (length p) s = p)"

text \<open>
  \<open>s.split()\<close>: the maximal runs of non-whitespace characters. The first argument is
  the word being read.
\<close>

fun split_from :: "string \<Rightarrow> string \<Rightarrow> string list" where
  "split_from cur [] = (if cur = [] then [] else [cur])"
| "split_from cur (c # cs) =
     (if isspace c then (if cur = [] then split_from [] cs else cur # split_from [] cs)
      else split_from (cur @ [c]) cs)"

definition split :: "string \<Rightarrow> string list" where
  "split s = split_from [] s"

text \<open>
  \<open>s.split(maxsplit=n)\<close>: after \<open>n\<close> words have been split off, the rest of the
  string, from its first non-whitespace character to its end, is the last item.
\<close>

fun split_max_from :: "nat \<Rightarrow> string \<Rightarrow> string \<Rightarrow> string list" where
  "split_max_from n cur [] = (if cur = [] then [] else [cur])"
| "split_max_from n cur (c # cs) =
     (if cur = [] then
        (if isspace c then split_max_from n [] cs
         else if n = 0 then [c # cs]
         else split_max_from n [c] cs)
      else
        (if isspace c then cur # split_max_from (n - 1) [] cs
         else split_max_from n (cur @ [c]) cs))"

definition split_maxsplit :: "nat \<Rightarrow> string \<Rightarrow> string list" where
  "split_maxsplit n s = split_max_from n [] s"

text \<open>
  \<open>int(s)\<close> in base 10: surrounding whitespace is stripped, then an optional sign and
  decimal digits, where single underscores may stand between digits. \<open>None\<close> is
  \<open>ValueError\<close>.
\<close>

fun parse_digits :: "bool \<Rightarrow> nat \<Rightarrow> string \<Rightarrow> nat option" where
  "parse_digits prev acc [] = (if prev then Some acc else None)"
| "parse_digits prev acc (c # cs) =
     (if isdigit c then parse_digits True (10 * acc + digit_val c) cs
      else if c = CHR ''_'' \<and> prev then parse_digits False acc cs
      else None)"

definition strip :: "string \<Rightarrow> string" where
  "strip s = rev (dropWhile isspace (rev (dropWhile isspace s)))"

definition py_int :: "string \<Rightarrow> int option" where
  "py_int s =
     (case strip s of
        [] \<Rightarrow> None
      | c # cs \<Rightarrow>
          if c = CHR ''-'' then map_option (\<lambda>n. - int n) (parse_digits False 0 cs)
          else if c = CHR ''+'' then map_option int (parse_digits False 0 cs)
          else map_option int (parse_digits False 0 (c # cs)))"

text \<open>\<open>str(n)\<close> for an integer.\<close>

fun str_nat :: "nat \<Rightarrow> string" where
  "str_nat n = (if n < 10 then [char_of (48 + n)] else str_nat (n div 10) @ [char_of (48 + n mod 10)])"

definition str_int :: "int \<Rightarrow> string" where
  "str_int i = (if i < 0 then CHR ''-'' # str_nat (nat (- i)) else str_nat (nat i))"

text \<open>\<open>xs[:n]\<close>: a negative bound counts from the end.\<close>

definition slice_to :: "int \<Rightarrow> 'a list \<Rightarrow> 'a list" where
  "slice_to n xs = (if 0 \<le> n then take (nat n) xs else take (length xs - nat (- n)) xs)"

declare str_nat.simps [simp del]

section \<open>The conversation tree\<close>

text \<open>
  Modelled from the spec: \<open>models.py\<close> (\<open>ChatMessage\<close>, \<open>ConversationTree\<close>) is not
  among the sources. A message has a role, a content, its children in creation order and
  the index of its selected child, absent while it has no children. The field is named
  \<open>current_child_idx\<close> as \<open>stringify_conversation\<close> reads it.
\<close>

datatype ChatMessage =
  ChatMessage (role: string) (content: string) (children: "ChatMessage list")
    (current_child_idx: "nat option")

text \<open>A tree is its root, absent before the first message is added.\<close>

datatype ConversationTree = ConversationTree (root: "ChatMessage option")

lemma size_nth_children:
  "i < length ch \<Longrightarrow> size (ch ! i) < Suc (size_list size ch)"
proof (induction ch arbitrary: i)
  case Nil
  then show ?case by simp
next
  case (Cons a ch)
  then show ?case by (cases i) force+
qed

text \<open>
  Modelled from the spec: the current conversation is the walk from the root along each
  node's selected child, until a node without one.
\<close>

function walk :: "ChatMessage \<Rightarrow> ChatMessage list" where
  "walk (ChatMessage r c ch sel) =
     ChatMessage r c ch sel #
       (case sel of
          None \<Rightarrow> []
        | Some i \<Rightarrow> if i < length ch then walk (ch ! i) else [])"
  by pat_completeness auto
termination
  by (relation "measure size") (auto dest: size_nth_children)

definition get_current_conversation :: "ConversationTree \<Rightarrow> ChatMessage list" where
  "get_current_conversation conv = (case root conv of None \<Rightarrow> [] | Some m \<Rightarrow> walk m)"

definition get_current_conversation_as_dicts :: "ConversationTree \<Rightarrow> (string \<times> string) list" where
  "get_current_conversation_as_dicts conv =
     map (\<lambda>m. (role m, content m)) (get_current_conversation conv)"

text \<open>
  Modelled from the spec: \<open>get_branch_width(index)\<close> is the number of children of the
  node at \<open>index\<close> on the current path, and fails out of range.
\<close>

definition get_branch_width :: "ConversationTree \<Rightarrow> int \<Rightarrow> exn + nat" where
  "get_branch_width conv i =
     (let cc = get_current_conversation conv in
      if 0 \<le> i \<and> i < int (length cc) then Inr (length (children (cc ! nat i)))
      else Inl IndexError)"

text \<open>
  The node \<open>k\<close> steps down the current path is replaced by \<open>f\<close> of it; the nodes above
  it are rebuilt around the changed child.
\<close>

fun update_at :: "nat \<Rightarrow> (ChatMessage \<Rightarrow> ChatMessage) \<Rightarrow> ChatMessage \<Rightarrow> ChatMessage" where
  "update_at 0 f m = f m"
| "update_at (Suc k) f (ChatMessage r c ch sel) =
     (case sel of
        None \<Rightarrow> ChatMessage r c ch sel
      | Some i \<Rightarrow>
          if i < length ch then ChatMessage r c (ch[i := update_at k f (ch ! i)]) sel
          else ChatMessage r c ch sel)"

definition append_child :: "ChatMessage \<Rightarrow> ChatMessage \<Rightarrow> ChatMessage" where
  "append_child new m =
     ChatMessage (role m) (content m) (children m @ [new]) (Some (length (children m)))"

definition select_child :: "nat \<Rightarrow> ChatMessage \<Rightarrow> ChatMessage" where
  "select_child b m = ChatMessage (role m) (content m) (children m) (Some b)"

text \<open>
  Modelled from the spec: \<open>add_message(role, content, after_index)\<close>. Without
  \<open>after_index\<close> the new leaf becomes the child of the current leaf (the root of an empty
  tree). With it, the new leaf is appended to the children of the node at that position
  of the current path and selected there; out of \<open>[0, current_path_length)\<close> it fails
  with \<open>IndexError\<close>.
\<close>

definition add_message ::
  "ConversationTree \<Rightarrow> string \<Rightarrow> string \<Rightarrow> int option \<Rightarrow> exn + ConversationTree" where
  "add_message conv r c after_index =
     (let new = ChatMessage r c [] None; cc = get_current_conversation conv in
      case after_index of
        None \<Rightarrow>
          (case root conv of
             None \<Rightarrow> Inr (ConversationTree (Some new))
           | Some m \<Rightarrow>
               Inr (ConversationTree (Some (update_at (length cc - 1) (append_child new) m))))
      | Some i \<Rightarrow>
          (case root conv of
             None \<Rightarrow> Inl IndexError
           | Some m \<Rightarrow>
               if 0 \<le> i \<and> i < int (length cc)
               then Inr (ConversationTree (Some (update_at (nat i) (append_child new) m)))
               else Inl IndexError))"

text \<open>
  Modelled from the spec: \<open>change_branch(index, branch_index)\<close> selects child
  \<open>branch_index\<close> of the node at \<open>index\<close> on the current path and touches no other
  node; out of bounds it fails with a domain error and leaves the tree as it is. The spec
  does not give the text of the error; the two texts below stand for it.
\<close>

definition change_branch :: "ConversationTree \<Rightarrow> int \<Rightarrow> int \<Rightarrow> exn + ConversationTree" where
  "change_branch conv i b =
     (let cc = get_current_conversation conv in
      case root conv of
        None \<Rightarrow> Inl (DomainError ''message index out of range'')
      | Some m \<Rightarrow>
          if \<not> (0 \<le> i \<and> i < int (length cc)) then Inl (DomainError ''message index out of range'')
          else if \<not> (0 \<le> b \<and> b < int (length (children (cc ! nat i))))
          then Inl (DomainError ''branch index out of range'')
          else Inr (ConversationTree (Some (update_at (nat i) (select_child (nat b)) m))))"

section \<open>Rendering the transcript\<close>

text \<open>
  \<open>str.capitalize\<close> on ASCII letters: the first character in upper case, the others in
  lower case. Characters from 128 on are kept as they are.
\<close>

definition upper_char :: "char \<Rightarrow> char" where
  "upper_char c = (let n = of_char c :: nat in if 97 \<le> n \<and> n \<le> 122 then char_of (n - 32) else c)"

definition lower_char :: "char \<Rightarrow> char" where
  "lower_char c = (let n = of_char c :: nat in if 65 \<le> n \<and> n \<le> 90 then char_of (n + 32) else c)"

definition capitalize :: "string \<Rightarrow> string" where
  "capitalize s = (case s of [] \<Rightarrow> [] | c # cs \<Rightarrow> upper_char c # map lower_char cs)"

definition speaker_str :: "string \<Rightarrow> string" where
  "speaker_str r =
     (if r = ''system'' then ''System''
      else if r = ''user'' then ''You''
      else if r = ''assistant'' then ''ChatGPT''
      else capitalize r)"

text \<open>
  One round of the loop of \<open>stringify_conversation\<close>, for index \<open>i\<close>. For \<open>i \<ge> 1\<close> the
  node at \<open>i - 1\<close> is on the path and has a selected child, so \<open>get_branch_width(i-1)\<close>
  is in range and the selected index is present (\<open>get_branch_width_on_path\<close> below); the
  separator is always written, \<open>i < len(current_conv)\<close> being true of every index.
\<close>

definition stringify_entry :: "ConversationTree \<Rightarrow> ChatMessage list \<Rightarrow> nat \<Rightarrow> string" where
  "stringify_entry conv current_conv i =
     (let msg = current_conv ! i in
      (if i = 0 then str_nat i @ '': <'' @ speaker_str (role msg) @ ''>'' @ nl
       else
         (let branch_width = (case get_branch_width conv (int i - 1) of
                                Inl _ \<Rightarrow> 0 | Inr w \<Rightarrow> w);
              child_idx = (case current_child_idx (current_conv ! (i - 1)) of
                             None \<Rightarrow> 0 | Some k \<Rightarrow> k)
          in str_nat i @ '': <('' @ str_nat (child_idx + 1) @ ''/'' @ str_nat branch_width @
             '') '' @ speaker_str (role msg) @ ''>'' @ nl))
      @ content msg
      @ (if i < length current_conv then nl @ replicate 50 (CHR ''-'') @ nl else []))"

definition stringify_conversation :: "ConversationTree \<Rightarrow> string" where
  "stringify_conversation conv =
     (let current_conv = get_current_conversation conv in
      if length current_conv = 0 then []
      else concat (map (stringify_entry conv current_conv) [0..<length current_conv]))"

lemma walk_selected:
  "Suc k < length (walk m) \<Longrightarrow> \<exists>j. current_child_idx (walk m ! k) = Some j"
proof (induction k arbitrary: m)
  case 0
  then show ?case by (cases m) (auto split: option.splits if_splits)
next
  case (Suc k)
  obtain r c ch sel where m: "m = ChatMessage r c ch sel" by (cases m)
  from Suc.prems obtain i where i: "sel = Some i" "i < length ch"
    "Suc k < length (walk (ch ! i))"
    by (auto simp: m split: option.splits if_splits)
  from Suc.IH [OF i(3)] show ?case by (simp add: m i)
qed

lemma get_branch_width_on_path:
  assumes "0 < i" and "i < length (get_current_conversation conv)"
  shows "get_branch_width conv (int i - 1) =
           Inr (length (children (get_current_conversation conv ! (i - 1))))
       \<and> (\<exists>j. current_child_idx (get_current_conversation conv ! (i - 1)) = Some j)"
proof -
  have n: "nat (int i - 1) = i - 1" using assms(1) by simp
  have w: "get_branch_width conv (int i - 1) =
           Inr (length (children (get_current_conversation conv ! (i - 1))))"
    using assms by (simp add: get_branch_width_def Let_def n)
  obtain m where m: "root conv = Some m"
    using assms(2) by (cases "root conv") (auto simp: get_current_conversation_def)
  have "Suc (i - 1) < length (walk m)"
    using assms m by (simp add: get_current_conversation_def)
  from walk_selected [OF this] w m show ?thesis
    by (simp add: get_current_conversation_def)
qed

section \<open>The completion fetcher\<close>

text \<open>A message as sent to and received from the provider: its role and its content.\<close>

type_synonym message = "string \<times> string"

text \<open>
  What the module reads from outside: the environment variable \<open>OPENAI_API_KEY\<close>; the
  provider, that is \<open>openai.ChatCompletion.create\<close> followed by
  \<open>completion['choices'][0]['message']\<close>, which raises or yields a message; the number
  \<open>random.randint\<close> draws; and \<open>str\<close> of a list of message dicts.
\<close>

record env =
  openai_api_key :: "string option"
  complete :: "message list \<Rightarrow> exn + message"
  randint :: nat
  py_str :: "message list \<Rightarrow> string"

text \<open>The truth value of \<open>openai_api_key\<close>: set and not empty.\<close>

definition key_configured :: "env \<Rightarrow> bool" where
  "key_configured e = (case openai_api_key e of None \<Rightarrow> False | Some k \<Rightarrow> k \<noteq> [])"

definition title_prompt :: string where
  "title_prompt =
     ''Provide a short title, less than 5 words whenever possible, summarizing a user-submitted conversation between a user and an AI model, provided in JSON form. Avoid using the user''
     @ [CHR 0x27] @
     ''s query verbatim in your title. Respond to user queries with the title you are providing, without other prefixes or suffixes.''"

text \<open>
  \<open>_get_next_completion_thread\<close>, up to its call of \<open>and_then\<close>. The worker is given
  the tree object (\<open>None\<close> when the client has no current conversation) and reads the
  current path from it. The result is the list of message lists sent to the provider, and
  either the exception that ends the worker or the response handed to \<open>and_then\<close>.
\<close>

definition priv_get_next_completion_thread ::
  "env \<Rightarrow> ConversationTree option \<Rightarrow> int option \<Rightarrow> message list list \<times> (exn + message)" where
  "priv_get_next_completion_thread e conv truncate_before =
     (if key_configured e then
        (case conv of
           None \<Rightarrow> ([], Inl AttributeError)
         | Some tree \<Rightarrow>
             (let curr_conv = get_current_conversation_as_dicts tree;
                  curr_conv = (case truncate_before of
                                 None \<Rightarrow> curr_conv
                               | Some n \<Rightarrow> slice_to n curr_conv)
              in ([curr_conv], complete e curr_conv)))
      else
        ([], Inr (''assistant'',
                  ''As an AI language model, simulated response '' @ str_nat (randint e))))"

text \<open>
  \<open>_get_title_for_conversation_thread\<close>: \<open>Inr None\<close> is a return without a call of
  \<open>and_then\<close>.
\<close>

definition priv_get_title_for_conversation_thread ::
  "env \<Rightarrow> ConversationTree option \<Rightarrow> message list list \<times> (exn + message option)" where
  "priv_get_title_for_conversation_thread e conv =
     (if key_configured e then
        (case conv of
           None \<Rightarrow> ([], Inl AttributeError)
         | Some tree \<Rightarrow>
             (let curr_conv = get_current_conversation_as_dicts tree in
              if length curr_conv \<ge> 3 then
                (let messages = [(''system'', title_prompt), (''user'', py_str e curr_conv)] in
                 ([messages],
                  case complete e messages of Inl x \<Rightarrow> Inl x | Inr resp \<Rightarrow> Inr (Some resp)))
              else ([], Inr None)))
      else ([], Inr None))"

section \<open>The chat client\<close>

text \<open>
  The three closures named \<open>post_completion\<close>: of \<open>new_child\<close> and the user branch of
  \<open>new_branch\<close>, of the assistant branch of \<open>new_branch\<close> (with its
  \<open>sibling_level\<close>), and of \<open>get_title_for_conversation\<close> (with its \<open>idx\<close>).
\<close>

datatype callback = PostAddToConversation | PostAddToBranch int | PostSetTitle nat

text \<open>
  A started thread with its arguments. The tree is passed as the object itself: the model
  keeps the index of the pair of \<open>conversations\<close> that holds it (pairs are only ever
  appended), \<open>None\<close> for Python's \<open>None\<close>.
\<close>

datatype thread =
    CompletionThread "nat option" callback "int option"
  | TitleThread "nat option" callback

text \<open>A call queued by \<open>wx.CallAfter\<close> for the user-interface thread.\<close>

datatype ui_call =
    CallAddToConversation string string
  | CallAddToBranch int string string
  | CallStopThinkingState

text \<open>
  The fields of \<open>ChatClient\<close> that the logic reads or writes: the conversation pairs,
  the current index (\<open>current_conversation\<close> is always assigned together with it and
  is the tree of that pair), the items of \<open>left_list\<close>, the text of \<open>right_text\<close>,
  whether the three controls are enabled, the threads started and not yet run, and the
  queue of \<open>wx.CallAfter\<close>.
\<close>

record ChatClient =
  conversations :: "(string \<times> ConversationTree) list"
  current_conversation_idx :: "nat option"
  left_list :: "string list"
  right_text :: string
  right_button_enabled :: bool
  left_list_enabled :: bool
  left_button_enabled :: bool
  threads :: "thread list"
  call_after :: "ui_call list"

text \<open>A method either returns a value or raises; the object is as it was left.\<close>

datatype 'a result = Returns 'a ChatClient | Raises exn ChatClient

definition state_of :: "'a result \<Rightarrow> ChatClient" where
  "state_of r = (case r of Returns _ st \<Rightarrow> st | Raises _ st \<Rightarrow> st)"

definition raised :: "'a result \<Rightarrow> exn option" where
  "raised r = (case r of Returns _ _ \<Rightarrow> None | Raises x _ \<Rightarrow> Some x)"

definition seq :: "'a result \<Rightarrow> ('a \<Rightarrow> ChatClient \<Rightarrow> 'b result) \<Rightarrow> 'b result" where
  "seq r f = (case r of Returns a st \<Rightarrow> f a st | Raises x st \<Rightarrow> Raises x st)"

definition init_client :: ChatClient where
  "init_client =
     \<lparr> conversations = [], current_conversation_idx = None, left_list = [],
       right_text = ''Press '' @ [CHR 0x27] @ ''New conversation'' @ [CHR 0x27]
                    @ '' to create a new conversation.'',
       right_button_enabled = True, left_list_enabled = True, left_button_enabled = True,
       threads = [], call_after = [] \<rparr>"

definition deref :: "ChatClient \<Rightarrow> nat option \<Rightarrow> ConversationTree option" where
  "deref st ref =
     (case ref of
        None \<Rightarrow> None
      | Some i \<Rightarrow> if i < length (conversations st) then Some (snd (conversations st ! i)) else None)"

definition current_conversation :: "ChatClient \<Rightarrow> ConversationTree option" where
  "current_conversation st = deref st (current_conversation_idx st)"

text \<open>A mutation of the current tree object, seen through the pair that holds it.\<close>

definition set_current_conversation :: "ConversationTree \<Rightarrow> ChatClient \<Rightarrow> ChatClient" where
  "set_current_conversation conv st =
     (case current_conversation_idx st of
        None \<Rightarrow> st
      | Some i \<Rightarrow>
          st\<lparr>conversations := (conversations st)[i := (fst (conversations st ! i), conv)]\<rparr>)"

definition set_title :: "nat \<Rightarrow> string \<Rightarrow> ChatClient \<Rightarrow> ChatClient" where
  "set_title i title st =
     st\<lparr>conversations := (conversations st)[i := (title, snd (conversations st ! i))]\<rparr>"

definition start_thread :: "thread \<Rightarrow> ChatClient \<Rightarrow> ChatClient" where
  "start_thread th st = st\<lparr>threads := threads st @ [th]\<rparr>"

definition get_next_completion ::
  "nat option \<Rightarrow> callback \<Rightarrow> int option \<Rightarrow> ChatClient \<Rightarrow> ChatClient" where
  "get_next_completion conv and_then truncate_before st =
     start_thread (CompletionThread conv and_then truncate_before) st"

definition get_title_for_conversation_thread ::
  "nat option \<Rightarrow> callback \<Rightarrow> ChatClient \<Rightarrow> ChatClient" where
  "get_title_for_conversation_thread conv and_then st =
     start_thread (TitleThread conv and_then) st"

definition start_thinking_state :: "ChatClient \<Rightarrow> ChatClient" where
  "start_thinking_state st =
     st\<lparr>right_text := right_text st @ nl @ ''ChatGPT is thinking...'',
        right_button_enabled := False, left_list_enabled := False,
        left_button_enabled := False\<rparr>"

definition stop_thinking_state :: "ChatClient \<Rightarrow> ChatClient" where
  "stop_thinking_state st =
     st\<lparr>right_button_enabled := True, left_list_enabled := True, left_button_enabled := True\<rparr>"

definition refresh_conversation_list :: "ChatClient \<Rightarrow> ChatClient" where
  "refresh_conversation_list st = st\<lparr>left_list := map fst (rev (conversations st))\<rparr>"

definition refresh_conversation_detail :: "ChatClient \<Rightarrow> unit result" where
  "refresh_conversation_detail st =
     (case current_conversation st of
        None \<Rightarrow> Raises AttributeError (st\<lparr>right_text := []\<rparr>)
      | Some conv \<Rightarrow> Returns () (st\<lparr>right_text := stringify_conversation conv\<rparr>))"

definition create_conversation :: "ChatClient \<Rightarrow> unit result" where
  "create_conversation st =
     (case add_message (ConversationTree None) ''system'' ''You are a helpful assistant.'' None of
        Inl x \<Rightarrow> Raises x st
      | Inr new_conv \<Rightarrow>
          (let st = st\<lparr>conversations := conversations st @ [(''New conversation'', new_conv)]\<rparr>;
               st = st\<lparr>current_conversation_idx := Some (length (conversations st) - 1)\<rparr>
           in refresh_conversation_detail (refresh_conversation_list st)))"

definition get_title_for_conversation :: "nat \<Rightarrow> ChatClient \<Rightarrow> unit result" where
  "get_title_for_conversation idx st =
     (if idx < length (conversations st)
      then Returns () (get_title_for_conversation_thread (Some idx) (PostSetTitle idx) st)
      else Raises IndexError st)"

definition add_to_conversation :: "string \<Rightarrow> string \<Rightarrow> ChatClient \<Rightarrow> unit result" where
  "add_to_conversation r c st =
     (case current_conversation st of
        None \<Rightarrow> Raises AttributeError st
      | Some conv \<Rightarrow>
          (case add_message conv r c None of
             Inl x \<Rightarrow> Raises x st
           | Inr conv' \<Rightarrow>
               seq (refresh_conversation_detail (set_current_conversation conv' st))
                 (\<lambda>_ st.
                    case current_conversation_idx st of
                      None \<Rightarrow> Raises TypeError st
                    | Some i \<Rightarrow>
                        if fst (conversations st ! i) = ''New conversation'' \<and> r = ''assistant''
                        then get_title_for_conversation i
                               (refresh_conversation_list (set_title i ''Retrieving title...'' st))
                        else Returns () st)))"

definition add_to_branch :: "int \<Rightarrow> string \<Rightarrow> string \<Rightarrow> ChatClient \<Rightarrow> bool result" where
  "add_to_branch sibling_level r c st =
     (case current_conversation st of
        None \<Rightarrow> Raises AttributeError st
      | Some conv \<Rightarrow>
          if sibling_level \<ge> 1 \<and> sibling_level < int (length (get_current_conversation conv))
          then
            (case add_message conv r c (Some (sibling_level - 1)) of
               Inl x \<Rightarrow> Raises x st
             | Inr conv' \<Rightarrow>
                 seq (refresh_conversation_detail (set_current_conversation conv' st))
                   (\<lambda>_ st. Returns True st))
          else
            Returns False
              (st\<lparr>right_text := right_text st @ nl @ nl @
                   ''requested sibling level outside range (1 - '' @
                   str_nat (length (get_current_conversation conv)) @ '')''\<rparr>))"

text \<open>
  \<open>str(e)\<close> for the exceptions \<open>switch_branch\<close> can catch: the error of
  \<open>change_branch\<close>, or \<open>AttributeError\<close> when there is no current conversation.
\<close>

definition str_exn :: "exn \<Rightarrow> string" where
  "str_exn x =
     (case x of
        DomainError s \<Rightarrow> s
      | ProviderError s \<Rightarrow> s
      | AttributeError \<Rightarrow>
          [CHR 0x27] @ ''NoneType'' @ [CHR 0x27] @ '' object has no attribute '' @
          [CHR 0x27] @ ''change_branch'' @ [CHR 0x27]
      | IndexError \<Rightarrow> ''list index out of range''
      | _ \<Rightarrow> [])"

definition switch_branch :: "int \<Rightarrow> int \<Rightarrow> ChatClient \<Rightarrow> bool result" where
  "switch_branch msg_idx branch_idx st =
     (case (case current_conversation st of
              None \<Rightarrow> Raises AttributeError st
            | Some conv \<Rightarrow>
                (case change_branch conv (msg_idx - 1) (branch_idx - 1) of
                   Inl x \<Rightarrow> Raises x st
                 | Inr conv' \<Rightarrow>
                     seq (refresh_conversation_detail (set_current_conversation conv' st))
                       (\<lambda>_ st. Returns True st))) of
        Returns b st \<Rightarrow> Returns b st
      | Raises x st \<Rightarrow> Returns False (st\<lparr>right_text := right_text st @ nl @ nl @ str_exn x\<rparr>))"

text \<open>\<open>xs[i]\<close> for a list: a negative index counts from the end.\<close>

definition py_getitem :: "'a list \<Rightarrow> int \<Rightarrow> exn + 'a" where
  "py_getitem xs i =
     (if 0 \<le> i \<and> i < int (length xs) then Inr (xs ! nat i)
      else if i < 0 \<and> - i \<le> int (length xs) then Inr (xs ! nat (int (length xs) + i))
      else Inl IndexError)"

definition role_at_level :: "int \<Rightarrow> ChatClient \<Rightarrow> string result" where
  "role_at_level msg_idx st =
     (case current_conversation st of
        None \<Rightarrow> Raises AttributeError st
      | Some conv \<Rightarrow>
          (let curr_conv = get_current_conversation conv in
           if msg_idx \<ge> 0 \<and> msg_idx \<le> int (length curr_conv) then
             (case py_getitem curr_conv msg_idx of
                Inl x \<Rightarrow> Raises x st
              | Inr m \<Rightarrow> Returns (role m) st)
           else Returns ''?'' st))"

text \<open>
  \<open>new_branch\<close> returns \<open>False\<close> out of range and \<open>None\<close> otherwise. With
  \<open>content = None\<close> in the branch for a user message, Python would store a message
  whose content is \<open>None\<close> and then fail with \<open>TypeError\<close> in
  \<open>stringify_conversation\<close>; messages of the model have no such content, so the
  model raises there at once. \<open>parse_command\<close> passes \<open>None\<close> only after
  \<open>role_at_level\<close> has answered \<open>'assistant'\<close>, which takes the other branch.
\<close>

definition new_branch :: "int \<Rightarrow> string option \<Rightarrow> ChatClient \<Rightarrow> bool option result" where
  "new_branch sibling_level content_opt st =
     (case current_conversation st of
        None \<Rightarrow> Raises AttributeError st
      | Some conv \<Rightarrow>
          if sibling_level \<ge> 1 \<and> sibling_level < int (length (get_current_conversation conv))
          then
            seq (role_at_level sibling_level st)
              (\<lambda>r st.
                 if r = ''assistant'' then
                   Returns None
                     (get_next_completion (current_conversation_idx st)
                        (PostAddToBranch sibling_level) (Some sibling_level)
                        (start_thinking_state st))
                 else
                   (case content_opt of
                      None \<Rightarrow> Raises TypeError st
                    | Some c \<Rightarrow>
                        seq (add_to_branch sibling_level ''user'' c st)
                          (\<lambda>ok st.
                             if ok then
                               Returns None
                                 (get_next_completion (current_conversation_idx st)
                                    PostAddToConversation None (start_thinking_state st))
                             else Returns None st)))
          else
            Returns (Some False)
              (st\<lparr>right_text := right_text st @ nl @ nl @
                   ''requested sibling level for new-branch outside range (1 - '' @
                   str_nat (length (get_current_conversation conv)) @ '')''\<rparr>))"

definition new_child :: "string \<Rightarrow> ChatClient \<Rightarrow> unit result" where
  "new_child input_string st =
     seq (add_to_conversation ''user'' input_string st)
       (\<lambda>_ st.
          Returns ()
            (get_next_completion (current_conversation_idx st) PostAddToConversation None
               (start_thinking_state st)))"

definition usage_text :: string where
  "usage_text =
     nl @ nl @ ''unrecognized / command, try one of these instead:'' @ nl @
     ''/sw a b -- switches level a message to alternative b'' @ nl @
     ''/nb n str -- creates a new response at level n (str ignored when replacing ChatGPT resps)''"

definition unrecognized_command :: "ChatClient \<Rightarrow> ChatClient" where
  "unrecognized_command st = st\<lparr>right_text := right_text st @ usage_text\<rparr>"

definition parse_command :: "string \<Rightarrow> ChatClient \<Rightarrow> unit result" where
  "parse_command input_string st =
     (if startswith input_string ''/sw'' then
        (let parts = split input_string in
         if length parts = 3 then
           (case py_int (parts ! 1) of
              None \<Rightarrow> Raises ValueError st
            | Some a \<Rightarrow>
                (case py_int (parts ! 2) of
                   None \<Rightarrow> Raises ValueError st
                 | Some b \<Rightarrow> seq (switch_branch a b st) (\<lambda>_ st. Returns () st)))
         else Returns () (unrecognized_command st))
      else if startswith input_string ''/nb'' then
        (let parts = split_maxsplit 2 input_string in
         if length parts = 3 then
           (case py_int (parts ! 1) of
              None \<Rightarrow> Raises ValueError st
            | Some a \<Rightarrow> seq (new_branch a (Some (parts ! 2)) st) (\<lambda>_ st. Returns () st))
         else if length parts = 2 then
           (case py_int (parts ! 1) of
              None \<Rightarrow> Raises ValueError st
            | Some a \<Rightarrow>
                seq (role_at_level a st)
                  (\<lambda>r st.
                     if r = ''assistant'' then seq (new_branch a None st) (\<lambda>_ st. Returns () st)
                     else
                       Returns ()
                         (st\<lparr>right_text := right_text st @ nl @ nl @
                              ''new-branch for level '' @ str_int a @
                              '' also requires a prompt (e.g. /nb '' @ str_int a @
                              '' Hello, world!)''\<rparr>)))
         else Returns () (unrecognized_command st))
      else if startswith input_string ''/'' then Returns () (unrecognized_command st)
      else new_child input_string st)"

definition on_send_pressed :: "string \<Rightarrow> ChatClient \<Rightarrow> unit result" where
  "on_send_pressed input_text st =
     seq (if current_conversation st = None then create_conversation st else Returns () st)
       (\<lambda>_ st. parse_command input_text st)"

text \<open>
  The closures \<open>post_completion\<close>, run by the worker with the response. Those of the
  completion fetches queue their two calls with \<open>wx.CallAfter\<close>; that of the title
  fetch writes the title itself.
\<close>

definition post_completion :: "callback \<Rightarrow> message \<Rightarrow> ChatClient \<Rightarrow> unit result" where
  "post_completion and_then resp st =
     (case and_then of
        PostAddToConversation \<Rightarrow>
          Returns ()
            (st\<lparr>call_after := call_after st @
                 [CallAddToConversation (fst resp) (snd resp), CallStopThinkingState]\<rparr>)
      | PostAddToBranch sibling_level \<Rightarrow>
          Returns ()
            (st\<lparr>call_after := call_after st @
                 [CallAddToBranch sibling_level (fst resp) (snd resp), CallStopThinkingState]\<rparr>)
      | PostSetTitle idx \<Rightarrow>
          if idx < length (conversations st)
          then Returns () (refresh_conversation_list (set_title idx (snd resp) st))
          else Raises IndexError st)"

text \<open>
  A thread runs to its end in the state it finds: the message lists it sent to the
  provider, the exception that ended it if one did, and the state it leaves.
\<close>

definition run_thread ::
  "env \<Rightarrow> thread \<Rightarrow> ChatClient \<Rightarrow> message list list \<times> exn option \<times> ChatClient" where
  "run_thread e th st =
     (case th of
        CompletionThread conv and_then truncate_before \<Rightarrow>
          (case priv_get_next_completion_thread e (deref st conv) truncate_before of
             (calls, Inl x) \<Rightarrow> (calls, Some x, st)
           | (calls, Inr resp) \<Rightarrow>
               (let r = post_completion and_then resp st in (calls, raised r, state_of r)))
      | TitleThread conv and_then \<Rightarrow>
          (case priv_get_title_for_conversation_thread e (deref st conv) of
             (calls, Inl x) \<Rightarrow> (calls, Some x, st)
           | (calls, Inr None) \<Rightarrow> (calls, None, st)
           | (calls, Inr (Some resp)) \<Rightarrow>
               (let r = post_completion and_then resp st in (calls, raised r, state_of r))))"

text \<open>The scheduler lets the \<open>k\<close>-th started thread run.\<close>

definition run_pending ::
  "env \<Rightarrow> nat \<Rightarrow> ChatClient \<Rightarrow> message list list \<times> exn option \<times> ChatClient" where
  "run_pending e k st =
     (if k < length (threads st)
      then run_thread e (threads st ! k)
             (st\<lparr>threads := take k (threads st) @ drop (Suc k) (threads st)\<rparr>)
      else ([], None, st))"

text \<open>The user-interface thread takes the first queued call and runs it.\<close>

definition run_ui_call :: "ui_call \<Rightarrow> ChatClient \<Rightarrow> unit result" where
  "run_ui_call c st =
     (case c of
        CallAddToConversation r t \<Rightarrow> add_to_conversation r t st
      | CallAddToBranch sibling_level r t \<Rightarrow>
          seq (add_to_branch sibling_level r t st) (\<lambda>_ st. Returns () st)
      | CallStopThinkingState \<Rightarrow> Returns () (stop_thinking_state st))"

definition run_call_after :: "ChatClient \<Rightarrow> unit result" where
  "run_call_after st =
     (case call_after st of
        [] \<Rightarrow> Returns () st
      | c # cs \<Rightarrow> run_ui_call c (st\<lparr>call_after := cs\<rparr>))"

text \<open>All queued calls in order; an exception in one does not stop the next.\<close>

fun run_ui_calls :: "ui_call list \<Rightarrow> ChatClient \<Rightarrow> ChatClient" where
  "run_ui_calls [] st = st"
| "run_ui_calls (c # cs) st = run_ui_calls cs (state_of (run_ui_call c st))"

definition drain_call_after :: "ChatClient \<Rightarrow> ChatClient" where
  "drain_call_after st = run_ui_calls (call_after st) (st\<lparr>call_after := []\<rparr>)"

section \<open>Saved state\<close>

text \<open>
  What \<open>json.load\<close> returns; a float is kept as its literal, no operation of \<open>load\<close>
  being defined on it.
\<close>

datatype json =
    JNull
  | JBool bool
  | JInt int
  | JFloat string
  | JString string
  | JArray "json list"
  | JObject "(string \<times> json) list"

text \<open>
  What opening and decoding \<open>state.dat\<close> gives: \<open>open\<close> raises \<open>OSError\<close> (no such
  file); reading raises \<open>UnicodeDecodeError\<close> (bytes that are not text);
  \<open>json.load\<close> raises \<open>JSONDecodeError\<close>, with the text of its \<open>repr\<close>; or
  \<open>json.load\<close> returns a value.
\<close>

datatype state_file = NoFile | NotText | NotJson string | Json json

text \<open>\<open>v[key]\<close> for a string key: of a dict, the last entry with the key.\<close>

definition subscript_key :: "json \<Rightarrow> string \<Rightarrow> exn + json" where
  "subscript_key v k =
     (case v of
        JObject kvs \<Rightarrow> (case map_of (rev kvs) k of None \<Rightarrow> Inl KeyError | Some x \<Rightarrow> Inr x)
      | _ \<Rightarrow> Inl TypeError)"

text \<open>\<open>v[i]\<close> for an integer \<open>i\<close>: a dict of \<open>json.load\<close> has string keys only.\<close>

definition subscript_int :: "json \<Rightarrow> int \<Rightarrow> exn + json" where
  "subscript_int v i =
     (case v of
        JArray xs \<Rightarrow> py_getitem xs i
      | JString cs \<Rightarrow> py_getitem (map (\<lambda>c. JString [c]) cs) i
      | JObject kvs \<Rightarrow> Inl KeyError
      | _ \<Rightarrow> Inl TypeError)"

text \<open>The items a \<open>for\<close> loop takes from a value: of a dict, its keys.\<close>

definition iterate :: "json \<Rightarrow> exn + json list" where
  "iterate v =
     (case v of
        JArray xs \<Rightarrow> Inr xs
      | JString cs \<Rightarrow> Inr (map (\<lambda>c. JString [c]) cs)
      | JObject kvs \<Rightarrow> Inr (map JString (remdups (map fst kvs)))
      | _ \<Rightarrow> Inl TypeError)"

text \<open>\<open>xs[idx]\<close> for a list and a decoded value as index: an integer or a boolean.\<close>

definition index_by :: "'a list \<Rightarrow> json \<Rightarrow> exn + 'a" where
  "index_by xs idx =
     (case idx of
        JInt i \<Rightarrow> py_getitem xs i
      | JBool b \<Rightarrow> py_getitem xs (if b then 1 else 0)
      | _ \<Rightarrow> Inl TypeError)"

text \<open>
  The list comprehension of \<open>load\<close>: \<open>[a[0], ConversationTree.unserialize(a[1])]\<close>
  for each \<open>a\<close>. \<open>unserialize\<close> is of \<open>models.py\<close> and a parameter here.
\<close>

fun load_pairs ::
  "(json \<Rightarrow> exn + ConversationTree) \<Rightarrow> json list \<Rightarrow> exn + (json \<times> ConversationTree) list" where
  "load_pairs unserialize [] = Inr []"
| "load_pairs unserialize (a # as) =
     (case subscript_int a 0 of
        Inl x \<Rightarrow> Inl x
      | Inr title \<Rightarrow>
          (case subscript_int a 1 of
             Inl x \<Rightarrow> Inl x
           | Inr t \<Rightarrow>
               (case unserialize t of
                  Inl x \<Rightarrow> Inl x
                | Inr conv \<Rightarrow>
                    (case load_pairs unserialize as of
                       Inl x \<Rightarrow> Inl x
                     | Inr rest \<Rightarrow> Inr ((title, conv) # rest)))))"

text \<open>
  What \<open>load\<close> leaves: nothing assigned (with the line printed to \<open>sys.stderr\<close>, if
  any), or \<open>conversations\<close>, \<open>current_conversation_idx\<close> and
  \<open>current_conversation\<close> as assigned, the titles and the index being the decoded
  values as they are.
\<close>

datatype load_outcome =
    StartEmpty "string option"
  | Loaded "(json \<times> ConversationTree) list" json ConversationTree

text \<open>
  \<open>load\<close>, up to its two calls of \<open>refresh\<close>. It is called by the constructor only:
  an exception that leaves it leaves the constructor, and the program.
\<close>

definition load ::
  "(json \<Rightarrow> exn + ConversationTree) \<Rightarrow> state_file \<Rightarrow> exn + load_outcome" where
  "load unserialize file =
     (case file of
        NoFile \<Rightarrow> Inr (StartEmpty None)
      | NotText \<Rightarrow> Inl UnicodeDecodeError
      | NotJson e \<Rightarrow> Inr (StartEmpty (Some e))
      | Json dat \<Rightarrow>
          (case subscript_key dat ''conversations'' of
             Inl x \<Rightarrow> Inl x
           | Inr cs \<Rightarrow>
               (case iterate cs of
                  Inl x \<Rightarrow> Inl x
                | Inr items \<Rightarrow>
                    (case load_pairs unserialize items of
                       Inl x \<Rightarrow> Inl x
                     | Inr convs \<Rightarrow>
                         (case subscript_key dat ''current_conv_idx'' of
                            Inl x \<Rightarrow> Inl x
                          | Inr idx \<Rightarrow>
                              (case index_by convs idx of
                                 Inl x \<Rightarrow> Inl x
                               | Inr pair \<Rightarrow> Inr (Loaded convs idx (snd pair))))))))"

text \<open>
  The value \<open>save\<close> hands to \<open>json.dump\<close>; \<open>serialize\<close> is of \<open>models.py\<close> and a
  parameter here.
\<close>

definition save :: "(ConversationTree \<Rightarrow> json) \<Rightarrow> ChatClient \<Rightarrow> json" where
  "save serialize st =
     JObject
       [(''conversations'',
         JArray (map (\<lambda>a. JArray [JString (fst a), serialize (snd a)]) (conversations st))),
        (''current_conv_idx'',
         case current_conversation_idx st of None \<Rightarrow> JNull | Some i \<Rightarrow> JInt (int i))]"

section \<open>Example sessions\<close>

text \<open>
  Two providers reached with a key: one that answers, one that fails. The stand-in for
  \<open>str\<close> of the message list joins the contents.
\<close>

definition ex_env :: env where
  "ex_env =
     \<lparr> openai_api_key = Some ''sk-test'', complete = (\<lambda>ms. Inr (''assistant'', ''hi'')),
       randint = 7, py_str = (\<lambda>ms. concat (map snd ms)) \<rparr>"

definition ex_env_fail :: env where
  "ex_env_fail =
     \<lparr> openai_api_key = Some ''sk-test'',
       complete = (\<lambda>ms. Inl (ProviderError ''connection reset'')),
       randint = 7, py_str = (\<lambda>ms. concat (map snd ms)) \<rparr>"

text \<open>A session: the window opens, and the button "New conversation" is pressed.\<close>

definition ex_fresh :: ChatClient where
  "ex_fresh = state_of (create_conversation init_client)"

definition ex_fresh_tree :: ConversationTree where
  "ex_fresh_tree =
     ConversationTree (Some (ChatMessage ''system'' ''You are a helpful assistant.'' [] None))"

text \<open>Another: the window opens and \<open>hello\<close> is sent; the fetch is in flight.\<close>

definition ex_asked :: ChatClient where
  "ex_asked = state_of (on_send_pressed ''hello'' init_client)"

text \<open>The fetch has answered and its two queued calls have run; the title fetch is started.\<close>

definition ex_answered :: ChatClient where
  "ex_answered = drain_call_after (snd (snd (run_pending ex_env 0 ex_asked)))"

definition ex_answered_tree :: ConversationTree where
  "ex_answered_tree =
     ConversationTree
       (Some (ChatMessage ''system'' ''You are a helpful assistant.''
          [ChatMessage ''user'' ''hello'' [ChatMessage ''assistant'' ''hi'' [] None] (Some 0)]
          (Some 0)))"

text \<open>A tree whose current path has five messages.\<close>

definition ex_five_tree :: ConversationTree where
  "ex_five_tree =
     ConversationTree
       (Some (ChatMessage ''system'' ''S''
          [ChatMessage ''user'' ''A''
             [ChatMessage ''assistant'' ''B''
                [ChatMessage ''user'' ''C'' [ChatMessage ''assistant'' ''D'' [] None] (Some 0)]
                (Some 0)]
             (Some 0)]
          (Some 0)))"

text \<open>A machine without \<open>OPENAI_API_KEY\<close>.\<close>

definition ex_env_nokey :: env where
  "ex_env_nokey =
     \<lparr> openai_api_key = None, complete = (\<lambda>ms. Inr (''assistant'', ''hi'')),
       randint = 7, py_str = (\<lambda>ms. concat (map snd ms)) \<rparr>"


section \<open>The role at a level\<close>

lemma role_at_level_cases:
  assumes "current_conversation st = Some conv"
  shows "role_at_level i st =
     (if 0 \<le> i \<and> i < int (length (get_current_conversation conv))
      then Returns (role (get_current_conversation conv ! nat i)) st
      else if i = int (length (get_current_conversation conv)) then Raises IndexError st
      else Returns ''?'' st)"
  using assms by (auto simp: role_at_level_def py_getitem_def Let_def)

text \<open>
  C9. With a current conversation of length \<open>L\<close>, \<open>role_at_level(L)\<close> passes the
  bounds check \<open>msg_idx >= 0 and msg_idx <= len(curr_conv)\<close> and raises
  \<open>IndexError\<close> at \<open>curr_conv[msg_idx]\<close>. The fallback \<open>'?'\<close> is what is returned
  for \<open>msg_idx < 0\<close> and for \<open>msg_idx > L\<close>, and for no other index: from \<open>0\<close> up
  to \<open>L - 1\<close> the result is the role of the message at that index.
\<close>

theorem role_at_level_at_length_raises:
  assumes "current_conversation st = Some conv"
  shows "role_at_level (int (length (get_current_conversation conv))) st = Raises IndexError st
     \<and> (\<forall>i. i < 0 \<or> i > int (length (get_current_conversation conv))
            \<longrightarrow> role_at_level i st = Returns ''?'' st)
     \<and> (\<forall>i. 0 \<le> i \<and> i < int (length (get_current_conversation conv))
            \<longrightarrow> role_at_level i st = Returns (role (get_current_conversation conv ! nat i)) st)"
  by (simp add: role_at_level_cases [OF assms])

theorem role_at_level_at_length_raises_witness:
  "current_conversation ex_fresh = Some ex_fresh_tree
   \<and> length (get_current_conversation ex_fresh_tree) = 1
   \<and> role_at_level 1 ex_fresh = Raises IndexError ex_fresh
   \<and> role_at_level 2 ex_fresh = Returns ''?'' ex_fresh
   \<and> role_at_level 0 ex_fresh = Returns ''system'' ex_fresh"
proof -
  have c: "current_conversation ex_fresh = Some ex_fresh_tree"
    unfolding ex_fresh_def ex_fresh_tree_def by code_simp
  have l: "length (get_current_conversation ex_fresh_tree) = 1"
    unfolding ex_fresh_tree_def by code_simp
  have r: "role (get_current_conversation ex_fresh_tree ! 0) = ''system''"
    unfolding ex_fresh_tree_def by code_simp
  note t = role_at_level_at_length_raises [OF c, unfolded l]
  from t have "role_at_level 1 ex_fresh = Raises IndexError ex_fresh" by simp
  moreover from t have "role_at_level 2 ex_fresh = Returns ''?'' ex_fresh" by simp
  moreover from t have "role_at_level 0 ex_fresh = Returns ''system'' ex_fresh"
    using r by simp
  ultimately show ?thesis using c l by simp
qed

section \<open>What a completion fetch sends\<close>

text \<open>
  C5. A completion fetch given the truncation limit \<open>limit\<close>, a number of entries,
  sends the provider exactly the first \<open>limit\<close> entries of the current path of the tree
  it reads, in one request; without a key it sends nothing. This holds of the worker
  function and of a started thread run in any state.
\<close>

theorem completion_fetch_sends_prefix:
  assumes "0 \<le> limit"
  shows "fst (priv_get_next_completion_thread e (Some conv) (Some limit)) =
           (if key_configured e
            then [take (nat limit) (get_current_conversation_as_dicts conv)] else [])
     \<and> fst (run_thread e (CompletionThread ref and_then (Some limit)) st) =
           (if key_configured e then
              (case deref st ref of
                 None \<Rightarrow> []
               | Some tree \<Rightarrow> [take (nat limit) (get_current_conversation_as_dicts tree)])
            else [])"
  using assms
  by (auto simp: priv_get_next_completion_thread_def run_thread_def slice_to_def Let_def
      split: option.splits sum.splits prod.splits)

theorem completion_fetch_sends_prefix_witness:
  "length (get_current_conversation_as_dicts ex_five_tree) = 5
   \<and> fst (priv_get_next_completion_thread ex_env (Some ex_five_tree) (Some 2)) =
       [[(''system'', ''S''), (''user'', ''A'')]]"
proof -
  have l: "length (get_current_conversation_as_dicts ex_five_tree) = 5"
    unfolding ex_five_tree_def by code_simp
  have k: "key_configured ex_env"
    unfolding ex_env_def by code_simp
  have t: "take (nat 2) (get_current_conversation_as_dicts ex_five_tree) =
             [(''system'', ''S''), (''user'', ''A'')]"
    unfolding ex_five_tree_def by code_simp
  have "(0::int) \<le> 2" by simp
  from completion_fetch_sends_prefix [OF this, of ex_env ex_five_tree]
  have "fst (priv_get_next_completion_thread ex_env (Some ex_five_tree) (Some 2)) =
          [take (nat 2) (get_current_conversation_as_dicts ex_five_tree)]"
    using k by simp
  then show ?thesis using l t by simp
qed

section \<open>Adding to the conversation\<close>

lemma map_update_same: "(map f xs)[a := f (xs ! a)] = map f xs"
  by (cases "a < length xs") (simp_all add: list_update_same_conv list_update_beyond)

lemma titles_set_current_conversation:
  "map fst (conversations (set_current_conversation conv st)) = map fst (conversations st)"
  by (cases "current_conversation_idx st")
     (simp_all add: set_current_conversation_def map_update map_update_same)


lemma add_message_leaf: "\<exists>conv'. add_message conv r c None = Inr conv'"
  by (auto simp: add_message_def Let_def split: option.splits)

lemma add_to_conversation_result:
  assumes "current_conversation_idx st = Some i" and "i < length (conversations st)"
    and "add_message (snd (conversations st ! i)) r c None = Inr conv'"
  shows "add_to_conversation r c st =
     Returns ()
       (let st1 = (set_current_conversation conv' st)\<lparr>right_text := stringify_conversation conv'\<rparr> in
        if fst (conversations st ! i) = ''New conversation'' \<and> r = ''assistant''
        then get_title_for_conversation_thread (Some i) (PostSetTitle i)
               (refresh_conversation_list (set_title i ''Retrieving title...'' st1))
        else st1)"
  using assms
  by (auto simp: add_to_conversation_def current_conversation_def deref_def seq_def
        refresh_conversation_detail_def set_current_conversation_def Let_def
        get_title_for_conversation_def refresh_conversation_list_def set_title_def)

lemma add_to_conversation_keeps_title:
  assumes "current_conversation_idx st = Some i" and "i < length (conversations st)"
    and "fst (conversations st ! i) \<noteq> ''New conversation'' \<or> r \<noteq> ''assistant''"
  shows "map fst (conversations (state_of (add_to_conversation r c st))) = map fst (conversations st)
       \<and> threads (state_of (add_to_conversation r c st)) = threads st
       \<and> call_after (state_of (add_to_conversation r c st)) = call_after st
       \<and> current_conversation_idx (state_of (add_to_conversation r c st)) = Some i
       \<and> raised (add_to_conversation r c st) = None"
proof -
  obtain conv' where a: "add_message (snd (conversations st ! i)) r c None = Inr conv'"
    using add_message_leaf by blast
  have t: "map fst (conversations (set_current_conversation conv' st)) = map fst (conversations st)"
    by (rule titles_set_current_conversation)
  show ?thesis
    using assms(3) t
    by (auto simp: add_to_conversation_result [OF assms(1,2) a] state_of_def raised_def
          set_current_conversation_def assms(1))
qed

section \<open>The title fetch\<close>

text \<open>
  C10. The title worker hands a response to its callback only if a key is configured and
  the conversation it reads has at least three messages. Without a key, or with fewer
  than three messages, it contacts nobody and returns without calling the callback, and
  the thread leaves the client as it found it: a title \<open>Retrieving title...\<close> stays.
  Nor does a later \<open>add_to_conversation\<close> change such a title or start another title
  fetch.
\<close>

theorem title_worker_calls_back_only_with_key_and_three:
  "(snd (priv_get_title_for_conversation_thread e (Some conv)) = Inr (Some resp)
      \<longrightarrow> key_configured e \<and> 3 \<le> length (get_current_conversation_as_dicts conv))
   \<and> (\<not> key_configured e \<or> length (get_current_conversation_as_dicts conv) < 3
      \<longrightarrow> priv_get_title_for_conversation_thread e (Some conv) = ([], Inr None))
   \<and> (deref st ref = Some conv
       \<and> (\<not> key_configured e \<or> length (get_current_conversation_as_dicts conv) < 3)
      \<longrightarrow> run_thread e (TitleThread ref and_then) st = ([], None, st))
   \<and> (current_conversation_idx st = Some i \<and> i < length (conversations st)
       \<and> fst (conversations st ! i) = ''Retrieving title...''
      \<longrightarrow> map fst (conversations (state_of (add_to_conversation r c st))) = map fst (conversations st)
          \<and> threads (state_of (add_to_conversation r c st)) = threads st)"
proof -
  have 1: "snd (priv_get_title_for_conversation_thread e (Some conv)) = Inr (Some resp)
      \<longrightarrow> key_configured e \<and> 3 \<le> length (get_current_conversation_as_dicts conv)"
    by (auto simp: priv_get_title_for_conversation_thread_def Let_def split: if_splits sum.splits)
  have 2: "\<not> key_configured e \<or> length (get_current_conversation_as_dicts conv) < 3
      \<longrightarrow> priv_get_title_for_conversation_thread e (Some conv) = ([], Inr None)"
    by (auto simp: priv_get_title_for_conversation_thread_def Let_def)
  have 3: "deref st ref = Some conv
       \<and> (\<not> key_configured e \<or> length (get_current_conversation_as_dicts conv) < 3)
      \<longrightarrow> run_thread e (TitleThread ref and_then) st = ([], None, st)"
    using 2 by (auto simp: run_thread_def)
  have 4: "current_conversation_idx st = Some i \<and> i < length (conversations st)
       \<and> fst (conversations st ! i) = ''Retrieving title...''
      \<longrightarrow> map fst (conversations (state_of (add_to_conversation r c st))) = map fst (conversations st)
          \<and> threads (state_of (add_to_conversation r c st)) = threads st"
    using add_to_conversation_keeps_title [of st i r c] by auto
  from 1 2 3 4 show ?thesis by blast
qed

theorem title_worker_calls_back_only_with_key_and_three_witness:
  "deref ex_answered (Some 0) = Some ex_answered_tree
   \<and> length (get_current_conversation_as_dicts ex_answered_tree) = 3
   \<and> fst (conversations ex_answered ! 0) = ''Retrieving title...''
   \<and> key_configured ex_env_nokey = False
   \<and> run_thread ex_env_nokey (TitleThread (Some 0) (PostSetTitle 0)) ex_answered =
       ([], None, ex_answered)
   \<and> snd (priv_get_title_for_conversation_thread ex_env (Some ex_answered_tree)) =
       Inr (Some (''assistant'', ''hi''))
   \<and> key_configured ex_env"
proof -
  have d: "deref ex_answered (Some 0) = Some ex_answered_tree"
    unfolding ex_answered_def ex_asked_def ex_env_def ex_answered_tree_def by code_simp
  have l: "length (get_current_conversation_as_dicts ex_answered_tree) = 3"
    unfolding ex_answered_tree_def by code_simp
  have t: "fst (conversations ex_answered ! 0) = ''Retrieving title...''"
    unfolding ex_answered_def ex_asked_def ex_env_def by code_simp
  have k: "key_configured ex_env_nokey = False"
    unfolding ex_env_nokey_def by code_simp
  have s: "snd (priv_get_title_for_conversation_thread ex_env (Some ex_answered_tree)) =
             Inr (Some (''assistant'', ''hi''))"
    unfolding ex_env_def ex_answered_tree_def by code_simp
  from title_worker_calls_back_only_with_key_and_three
         [of ex_env ex_answered_tree "(''assistant'', ''hi'')" ex_answered "Some 0"
             "PostSetTitle 0" 0 "''user''" "''x''"]
  have k2: "key_configured ex_env" using s by blast
  from title_worker_calls_back_only_with_key_and_three
         [of ex_env_nokey ex_answered_tree "(''assistant'', ''hi'')" ex_answered "Some 0"
             "PostSetTitle 0" 0 "''user''" "''x''"]
  have "run_thread ex_env_nokey (TitleThread (Some 0) (PostSetTitle 0)) ex_answered =
          ([], None, ex_answered)"
    using d k by blast
  then show ?thesis using d l t k s k2 by simp
qed

section \<open>A fetch that fails\<close>

lemma new_child_result:
  assumes "current_conversation_idx st = Some i" and "i < length (conversations st)"
    and "add_message (snd (conversations st ! i)) ''user'' input None = Inr conv'"
  shows "new_child input st =
     Returns ()
       (get_next_completion (Some i) PostAddToConversation None
          (start_thinking_state
             ((set_current_conversation conv' st)\<lparr>right_text := stringify_conversation conv'\<rparr>)))"
  using assms
  by (simp add: new_child_def add_to_conversation_result [OF assms] seq_def Let_def
        set_current_conversation_def)

lemma provider_failure_after_new_child:
  assumes "new_child input st0 = Returns () st1"
    and "key_configured e"
    and "current_conversation st1 = Some tree"
    and "complete e (get_current_conversation_as_dicts tree) = Inl x"
  shows "run_pending e (length (threads st0)) st1 =
           ([get_current_conversation_as_dicts tree], Some x, st1\<lparr>threads := threads st0\<rparr>)
       \<and> right_button_enabled st1 = False \<and> left_list_enabled st1 = False
       \<and> left_button_enabled st1 = False
       \<and> call_after (st1\<lparr>threads := threads st0\<rparr>) = call_after st0"
proof -
  have "raised (add_to_conversation ''user'' input st0) = None"
    using assms(1) by (auto simp: new_child_def seq_def raised_def split: result.splits)
  then obtain i conv where i: "current_conversation_idx st0 = Some i" "i < length (conversations st0)"
    by (auto simp: add_to_conversation_def raised_def current_conversation_def deref_def
        split: option.splits if_splits)
  obtain conv' where a: "add_message (snd (conversations st0 ! i)) ''user'' input None = Inr conv'"
    using add_message_leaf by blast
  note r = new_child_result [OF i a]
  have st1: "st1 = get_next_completion (Some i) PostAddToConversation None
          (start_thinking_state
             ((set_current_conversation conv' st0)\<lparr>right_text := stringify_conversation conv'\<rparr>))"
    using assms(1) r by simp
  have th: "threads st1 = threads st0 @ [CompletionThread (Some i) PostAddToConversation None]"
    by (simp add: st1 get_next_completion_def start_thread_def start_thinking_state_def
          set_current_conversation_def i)
  have d: "deref (st1\<lparr>threads := threads st0\<rparr>) (Some i) = Some tree"
    using assms(3)
    by (simp add: st1 current_conversation_def deref_def get_next_completion_def start_thread_def
          start_thinking_state_def set_current_conversation_def i)
  have w: "priv_get_next_completion_thread e (Some tree) None =
             ([get_current_conversation_as_dicts tree], Inl x)"
    using assms(2,4) by (simp add: priv_get_next_completion_thread_def Let_def)
  have "run_pending e (length (threads st0)) st1 =
           ([get_current_conversation_as_dicts tree], Some x, st1\<lparr>threads := threads st0\<rparr>)"
    by (simp add: run_pending_def th run_thread_def d w)
  moreover have "right_button_enabled st1 = False \<and> left_list_enabled st1 = False
       \<and> left_button_enabled st1 = False \<and> call_after (st1\<lparr>threads := threads st0\<rparr>) = call_after st0"
    by (simp add: st1 get_next_completion_def start_thread_def start_thinking_state_def
          set_current_conversation_def i)
  ultimately show ?thesis by simp
qed

text \<open>
  C1, as the code has it. If the provider raises, the worker of a completion fetch ends
  with that exception before it calls \<open>and_then\<close>: it has sent its request once, and
  it leaves the client exactly as it found it, whatever the callback and the truncation.
  In particular, after a text has been sent (\<open>new_child\<close>), which disabled the three
  controls and started the fetch: nothing is queued for the user-interface thread, the
  tree and the transcript are unchanged (no error text is written) and the controls stay
  disabled.
\<close>

theorem provider_failure_leaves_fetching:
  "(key_configured e \<and> deref st ref = Some tree
      \<and> complete e (case truncate_before of
                       None \<Rightarrow> get_current_conversation_as_dicts tree
                     | Some k \<Rightarrow> slice_to k (get_current_conversation_as_dicts tree)) = Inl x
     \<longrightarrow> run_thread e (CompletionThread ref and_then truncate_before) st =
           ([case truncate_before of
               None \<Rightarrow> get_current_conversation_as_dicts tree
             | Some k \<Rightarrow> slice_to k (get_current_conversation_as_dicts tree)], Some x, st))
   \<and> (new_child input st0 = Returns () st1 \<and> key_configured e
       \<and> current_conversation st1 = Some tree1
       \<and> complete e (get_current_conversation_as_dicts tree1) = Inl x1
     \<longrightarrow> run_pending e (length (threads st0)) st1 =
           ([get_current_conversation_as_dicts tree1], Some x1, st1\<lparr>threads := threads st0\<rparr>)
         \<and> right_button_enabled st1 = False \<and> left_list_enabled st1 = False
         \<and> left_button_enabled st1 = False
         \<and> call_after (st1\<lparr>threads := threads st0\<rparr>) = call_after st0)"
proof -
  have 1: "run_thread e (CompletionThread ref and_then truncate_before) st =
           ([case truncate_before of
               None \<Rightarrow> get_current_conversation_as_dicts tree
             | Some k \<Rightarrow> slice_to k (get_current_conversation_as_dicts tree)], Some x, st)"
    if "key_configured e" and "deref st ref = Some tree"
      and "complete e (case truncate_before of
                       None \<Rightarrow> get_current_conversation_as_dicts tree
                     | Some k \<Rightarrow> slice_to k (get_current_conversation_as_dicts tree)) = Inl x"
    using that by (simp add: run_thread_def priv_get_next_completion_thread_def Let_def)
  from 1 provider_failure_after_new_child [of input st0 st1 e tree1 x1]
  show ?thesis by blast
qed

theorem provider_failure_leaves_fetching_witness:
  "new_child ''hello'' ex_fresh = Returns () ex_asked
   \<and> run_pending ex_env_fail 0 ex_asked =
       ([[(''system'', ''You are a helpful assistant.''), (''user'', ''hello'')]],
        Some (ProviderError ''connection reset''), ex_asked\<lparr>threads := []\<rparr>)
   \<and> right_button_enabled ex_asked = False"
proof -
  have n: "new_child ''hello'' ex_fresh = Returns () ex_asked"
    unfolding ex_fresh_def ex_asked_def by code_simp
  have k: "key_configured ex_env_fail" unfolding ex_env_fail_def by code_simp
  define tree where "tree = ConversationTree (Some (ChatMessage ''system'' ''You are a helpful assistant.''
          [ChatMessage ''user'' ''hello'' [] None] (Some 0)))"
  have c: "current_conversation ex_asked = Some tree"
    unfolding ex_asked_def tree_def by code_simp
  have g: "get_current_conversation_as_dicts tree =
     [(''system'', ''You are a helpful assistant.''), (''user'', ''hello'')]"
    unfolding tree_def by code_simp
  have f: "complete ex_env_fail (get_current_conversation_as_dicts tree) =
             Inl (ProviderError ''connection reset'')"
    unfolding ex_env_fail_def by simp
  have t0: "threads ex_fresh = []" unfolding ex_fresh_def by code_simp
  from provider_failure_leaves_fetching
         [where e = ex_env_fail and input = "''hello''" and ?st0.0 = ex_fresh
            and ?st1.0 = ex_asked and ?tree1.0 = tree
            and ?x1.0 = "ProviderError ''connection reset''"]
  have "run_pending ex_env_fail (length (threads ex_fresh)) ex_asked =
           ([get_current_conversation_as_dicts tree], Some (ProviderError ''connection reset''),
            ex_asked\<lparr>threads := threads ex_fresh\<rparr>)
         \<and> right_button_enabled ex_asked = False"
    using n k c f by blast
  then show ?thesis using n g t0 by simp
qed

text \<open>
  C1 as stated fails: \<open>hello\<close> is sent in a new window and the provider fails. No
  thread and no queued call is left, the transcript is the one of before the failure,
  ending in \<open>ChatGPT is thinking...\<close>, and the three controls are disabled.
\<close>

theorem provider_failure_counterexample:
  "fst (snd (run_pending ex_env_fail 0 ex_asked)) = Some (ProviderError ''connection reset'')
   \<and> right_text (drain_call_after (snd (snd (run_pending ex_env_fail 0 ex_asked)))) = right_text ex_asked
   \<and> right_button_enabled (drain_call_after (snd (snd (run_pending ex_env_fail 0 ex_asked)))) = False
   \<and> left_list_enabled (drain_call_after (snd (snd (run_pending ex_env_fail 0 ex_asked)))) = False
   \<and> left_button_enabled (drain_call_after (snd (snd (run_pending ex_env_fail 0 ex_asked)))) = False
   \<and> threads (drain_call_after (snd (snd (run_pending ex_env_fail 0 ex_asked)))) = []
   \<and> call_after (drain_call_after (snd (snd (run_pending ex_env_fail 0 ex_asked)))) = []"
  unfolding ex_env_fail_def ex_asked_def by code_simp

section \<open>The title of a conversation\<close>

lemma create_conversation_conversations:
  "conversations (state_of (create_conversation st)) =
     conversations st @
       [(''New conversation'',
         ConversationTree (Some (ChatMessage ''system'' ''You are a helpful assistant.'' [] None)))]"
  by (simp add: create_conversation_def add_message_def Let_def refresh_conversation_detail_def
        refresh_conversation_list_def current_conversation_def deref_def state_of_def
        get_current_conversation_def)

lemma titles_refresh_conversation_detail:
  "conversations (state_of (refresh_conversation_detail st)) = conversations st"
  by (simp add: refresh_conversation_detail_def state_of_def split: option.splits)

lemma titles_add_to_conversation_user:
  "r \<noteq> ''assistant'' \<Longrightarrow>
     map fst (conversations (state_of (add_to_conversation r c st))) = map fst (conversations st)"
  by (auto simp: add_to_conversation_def state_of_def seq_def refresh_conversation_detail_def
        titles_set_current_conversation
      split: option.splits sum.splits result.splits)

lemma titles_add_to_branch:
  "map fst (conversations (state_of (add_to_branch n r c st))) = map fst (conversations st)"
  by (auto simp: add_to_branch_def state_of_def seq_def refresh_conversation_detail_def
        titles_set_current_conversation
      split: option.splits sum.splits result.splits)

lemma titles_switch_branch:
  "map fst (conversations (state_of (switch_branch a b st))) = map fst (conversations st)"
  by (auto simp: switch_branch_def state_of_def seq_def refresh_conversation_detail_def
        titles_set_current_conversation
      split: option.splits sum.splits result.splits)

lemma state_role_at_level: "state_of (role_at_level a st) = st"
  by (auto simp: role_at_level_def state_of_def Let_def split: option.splits sum.splits)

lemma role_at_level_state:
  "role_at_level a st = Returns r st' \<Longrightarrow> st' = st"
  "role_at_level a st = Raises x st' \<Longrightarrow> st' = st"
  using state_role_at_level [of a st] by (simp_all add: state_of_def)

lemma titles_add_to_branch_result:
  "add_to_branch n r c st = Returns b st' \<Longrightarrow>
     map fst (conversations st') = map fst (conversations st)"
  "add_to_branch n r c st = Raises x st' \<Longrightarrow>
     map fst (conversations st') = map fst (conversations st)"
  using titles_add_to_branch [of n r c st] by (simp_all add: state_of_def)

lemma titles_new_branch:
  "map fst (conversations (state_of (new_branch n content_opt st))) = map fst (conversations st)"
proof (cases "role_at_level n st")
  case (Returns r st')
  then have [simp]: "st' = st" by (rule role_at_level_state)
  show ?thesis
    using Returns
    by (auto simp: new_branch_def state_of_def seq_def get_next_completion_def start_thread_def
          start_thinking_state_def titles_add_to_branch_result
        split: option.splits result.splits)
next
  case (Raises x st')
  then have [simp]: "st' = st" by (rule role_at_level_state)
  show ?thesis
    using Raises
    by (auto simp: new_branch_def state_of_def seq_def split: option.splits)
qed

lemma titles_new_child:
  "map fst (conversations (state_of (new_child input st))) = map fst (conversations st)"
  using titles_add_to_conversation_user [of "''user''" input st]
  by (auto simp: new_child_def state_of_def seq_def get_next_completion_def start_thread_def
        start_thinking_state_def split: result.splits)

lemma titles_parse_command:
  "map fst (conversations (state_of (parse_command input st))) = map fst (conversations st)"
proof -
  have nb: "map fst (conversations (state_of (seq (new_branch n content_opt st) (\<lambda>_ st. Returns () st)))) =
              map fst (conversations st)" for n content_opt
    using titles_new_branch [of n content_opt st]
    by (auto simp: seq_def state_of_def split: result.splits)
  have sw: "map fst (conversations (state_of (seq (switch_branch a b st) (\<lambda>_ st. Returns () st)))) =
              map fst (conversations st)" for a b
    using titles_switch_branch [of a b st]
    by (auto simp: seq_def state_of_def split: result.splits)
  have rl: "map fst (conversations (state_of (seq (role_at_level a st) f))) = map fst (conversations st)"
    if "\<And>r. map fst (conversations (state_of (f r st))) = map fst (conversations st)" for a f
  proof (cases "role_at_level a st")
    case (Returns r st')
    then have "st' = st" by (rule role_at_level_state)
    with Returns that show ?thesis by (simp add: seq_def)
  next
    case (Raises x st')
    then have "st' = st" by (rule role_at_level_state)
    with Raises show ?thesis by (simp add: seq_def state_of_def)
  qed
  have un: "map fst (conversations (unrecognized_command st)) = map fst (conversations st)"
    by (simp add: unrecognized_command_def)
  have st: "state_of (Returns () s) = s" "state_of (Raises x s) = s" for s x
    by (simp_all add: state_of_def)
  show ?thesis
    unfolding parse_command_def Let_def
    by (auto simp: nb sw un st titles_new_child intro!: rl split: option.splits)
qed

lemma titles_run_ui_call:
  "(\<forall>r t. call \<noteq> CallAddToConversation r t) \<Longrightarrow>
     map fst (conversations (state_of (run_ui_call call st))) = map fst (conversations st)"
  by (cases call)
     (auto simp: run_ui_call_def seq_def state_of_def stop_thinking_state_def
        titles_add_to_branch_result split: result.splits)

text \<open>
  C8, as the code has it. A pair is created with the title \<open>New conversation\<close>.
  \<open>add_to_conversation\<close> keeps that title for a message that is not the assistant's;
  for the assistant's it sets the title to \<open>Retrieving title...\<close> and starts the title
  fetch. The callback of the title fetch sets the title to the content of the response.
  The title worker contacts the provider only with a key and a conversation of at least
  three messages. No command changes a title, and of the queued calls only
  \<open>add_to_conversation\<close> can.
\<close>

theorem title_placeholder_until_first_reply:
  "fst (last (conversations (state_of (create_conversation st)))) = ''New conversation''
   \<and> (current_conversation_idx st = Some i \<and> i < length (conversations st)
       \<and> fst (conversations st ! i) = ''New conversation''
      \<longrightarrow> fst (conversations (state_of (add_to_conversation r c st)) ! i) =
            (if r = ''assistant'' then ''Retrieving title...'' else ''New conversation'')
          \<and> threads (state_of (add_to_conversation r c st)) =
            (if r = ''assistant'' then threads st @ [TitleThread (Some i) (PostSetTitle i)]
             else threads st))
   \<and> (i < length (conversations st)
      \<longrightarrow> fst (conversations (state_of (post_completion (PostSetTitle i) resp st)) ! i) = snd resp)
   \<and> (fst (priv_get_title_for_conversation_thread e conv) \<noteq> []
      \<longrightarrow> key_configured e
          \<and> (\<exists>tree. conv = Some tree \<and> 3 \<le> length (get_current_conversation_as_dicts tree)))
   \<and> map fst (conversations (state_of (parse_command input st))) = map fst (conversations st)
   \<and> ((\<forall>r t. call \<noteq> CallAddToConversation r t)
      \<longrightarrow> map fst (conversations (state_of (run_ui_call call st))) = map fst (conversations st))"
proof -
  have 1: "fst (last (conversations (state_of (create_conversation st)))) = ''New conversation''"
    by (simp add: create_conversation_conversations)
  have 2: "fst (conversations (state_of (add_to_conversation r c st)) ! i) =
            (if r = ''assistant'' then ''Retrieving title...'' else ''New conversation'')
          \<and> threads (state_of (add_to_conversation r c st)) =
            (if r = ''assistant'' then threads st @ [TitleThread (Some i) (PostSetTitle i)]
             else threads st)"
    if h: "current_conversation_idx st = Some i" "i < length (conversations st)"
       "fst (conversations st ! i) = ''New conversation''"
  proof -
    obtain conv' where a: "add_message (snd (conversations st ! i)) r c None = Inr conv'"
      using add_message_leaf by blast
    show ?thesis
      using h
      by (simp add: add_to_conversation_result [OF h(1,2) a] state_of_def Let_def
            set_current_conversation_def get_title_for_conversation_thread_def start_thread_def
            refresh_conversation_list_def set_title_def)
  qed
  have 3: "fst (conversations (state_of (post_completion (PostSetTitle i) resp st)) ! i) = snd resp"
    if "i < length (conversations st)"
    using that
    by (simp add: post_completion_def state_of_def refresh_conversation_list_def set_title_def)
  have 4: "fst (priv_get_title_for_conversation_thread e conv) \<noteq> []
      \<longrightarrow> key_configured e
          \<and> (\<exists>tree. conv = Some tree \<and> 3 \<le> length (get_current_conversation_as_dicts tree))"
    by (auto simp: priv_get_title_for_conversation_thread_def Let_def
        split: option.splits if_splits)
  note 5 = titles_parse_command [of input st]
  have 6: "(\<forall>r t. call \<noteq> CallAddToConversation r t)
      \<longrightarrow> map fst (conversations (state_of (run_ui_call call st))) = map fst (conversations st)"
    using titles_run_ui_call [of call st] by blast
  from 1 2 3 4 5 6 show ?thesis by blast
qed

theorem title_placeholder_until_first_reply_witness:
  "current_conversation_idx ex_fresh = Some 0
   \<and> conversations ex_fresh = [(''New conversation'', ex_fresh_tree)]
   \<and> fst (conversations (state_of (add_to_conversation ''user'' ''hello'' ex_fresh)) ! 0) = ''New conversation''
   \<and> fst (conversations (state_of (add_to_conversation ''assistant'' ''hi'' ex_fresh)) ! 0) = ''Retrieving title...''
   \<and> fst (conversations (state_of (post_completion (PostSetTitle 0) (''assistant'', ''Greeting'') ex_answered)) ! 0) = ''Greeting''
   \<and> fst (priv_get_title_for_conversation_thread ex_env (Some ex_answered_tree)) \<noteq> []
   \<and> key_configured ex_env
   \<and> 3 \<le> length (get_current_conversation_as_dicts ex_answered_tree)"
proof -
  have i: "current_conversation_idx ex_fresh = Some 0"
    unfolding ex_fresh_def by code_simp
  have c: "conversations ex_fresh = [(''New conversation'', ex_fresh_tree)]"
    unfolding ex_fresh_def ex_fresh_tree_def by code_simp
  have la: "length (conversations ex_answered) = 1"
    unfolding ex_answered_def ex_asked_def ex_env_def by code_simp
  have p: "fst (priv_get_title_for_conversation_thread ex_env (Some ex_answered_tree)) \<noteq> []"
    unfolding ex_env_def ex_answered_tree_def by code_simp
  note t1 = title_placeholder_until_first_reply
     [of ex_fresh 0 "''user''" "''hello''" "(''assistant'', ''Greeting'')" ex_env "Some ex_answered_tree"]
  note t2 = title_placeholder_until_first_reply
     [of ex_fresh 0 "''assistant''" "''hi''" "(''assistant'', ''Greeting'')" ex_env "Some ex_answered_tree"]
  note t3 = title_placeholder_until_first_reply
     [of ex_answered 0 "''assistant''" "''hi''" "(''assistant'', ''Greeting'')" ex_env "Some ex_answered_tree"]
  have a: "fst (conversations (state_of (add_to_conversation ''user'' ''hello'' ex_fresh)) ! 0) = ''New conversation''"
    using t1 i c by simp
  have b: "fst (conversations (state_of (add_to_conversation ''assistant'' ''hi'' ex_fresh)) ! 0) = ''Retrieving title...''"
    using t2 i c by simp
  have d: "fst (conversations (state_of (post_completion (PostSetTitle 0) (''assistant'', ''Greeting'') ex_answered)) ! 0) = ''Greeting''"
    using t3 la by simp
  have e: "key_configured ex_env \<and> 3 \<le> length (get_current_conversation_as_dicts ex_answered_tree)"
    using t1 p by blast
  show ?thesis using i c a b d p e by simp
qed

text \<open>
  C8 as stated fails: after the first exchange the pair carries the title
  \<open>Retrieving title...\<close>, in the client and in the list, while the title thread has not
  run, so before any title of the model has arrived.
\<close>

theorem title_placeholder_counterexample:
  "conversations ex_fresh = [(''New conversation'', ex_fresh_tree)]
   \<and> ex_asked = state_of (on_send_pressed ''hello'' init_client)
   \<and> ex_answered = drain_call_after (snd (snd (run_pending ex_env 0 ex_asked)))
   \<and> conversations ex_answered = [(''Retrieving title...'', ex_answered_tree)]
   \<and> left_list ex_answered = [''Retrieving title...'']
   \<and> threads ex_answered = [TitleThread (Some 0) (PostSetTitle 0)]"
proof -
  have "conversations ex_fresh = [(''New conversation'', ex_fresh_tree)]"
    unfolding ex_fresh_def ex_fresh_tree_def by code_simp
  moreover have "conversations ex_answered = [(''Retrieving title...'', ex_answered_tree)]"
    unfolding ex_answered_def ex_asked_def ex_env_def ex_answered_tree_def by code_simp
  moreover have "left_list ex_answered = [''Retrieving title...'']"
    unfolding ex_answered_def ex_asked_def ex_env_def by code_simp
  moreover have "threads ex_answered = [TitleThread (Some 0) (PostSetTitle 0)]"
    unfolding ex_answered_def ex_asked_def ex_env_def by code_simp
  ultimately show ?thesis by (simp add: ex_asked_def ex_answered_def)
qed

section \<open>What a worker reads\<close>





section \<open>The command for a new branch\<close>










section \<open>Inputs on which the code fails\<close>

text \<open>
  C3. \<open>/sw a b\<close> has three items, so \<open>map(int, parts[1:])\<close> is unpacked and
  \<open>int\<close> raises \<open>ValueError\<close>, which nothing catches: the exception leaves
  \<open>parse_command\<close> and the client is as before, no usage message written. The same
  happens when only the second number is malformed. With two items the usage message is
  written.
\<close>

theorem switch_non_integer_raises:
  "parse_command ''/sw a b'' ex_answered = Raises ValueError ex_answered
   \<and> parse_command ''/sw 1 x'' ex_answered = Raises ValueError ex_answered
   \<and> parse_command ''/sw 1'' ex_answered = Returns () (unrecognized_command ex_answered)"
  unfolding ex_answered_def ex_asked_def ex_env_def by code_simp

text \<open>
  C4. A window closed before any conversation exists saves an empty list of
  conversations and the index \<open>None\<close>; loaded again, \<open>self.conversations[None]\<close>
  raises \<open>TypeError\<close>, which \<open>load\<close> does not catch. Decoded content without the key
  \<open>conversations\<close> raises \<open>KeyError\<close>, and content that is not text raises
  \<open>UnicodeDecodeError\<close>. A missing file and content that is not JSON do start empty.
\<close>

theorem load_of_saved_empty_session_raises:
  "load unserialize (Json (save serialize init_client)) = Inl TypeError
   \<and> save serialize init_client =
       JObject [(''conversations'', JArray []), (''current_conv_idx'', JNull)]
   \<and> load unserialize (Json (JObject [])) = Inl KeyError
   \<and> load unserialize NotText = Inl UnicodeDecodeError
   \<and> load unserialize NoFile = Inr (StartEmpty None)
   \<and> load unserialize (NotJson e) = Inr (StartEmpty (Some e))"
  by (simp add: load_def save_def init_client_def subscript_key_def iterate_def index_by_def)

text \<open>
  C7. In a conversation whose path has one message, \<open>/nb 1\<close> names a position outside
  \<open>[1, 1)\<close> and gives no text. \<open>role_at_level(1)\<close> passes its bounds check and
  raises \<open>IndexError\<close>, which nothing catches: no message is written. One position
  further, \<open>/nb 2\<close>, the message is written. The same happens with \<open>/nb 3\<close> on a
  path of three messages.
\<close>

theorem new_branch_without_text_at_length_raises:
  "length (get_current_conversation ex_fresh_tree) = 1
   \<and> current_conversation ex_fresh = Some ex_fresh_tree
   \<and> parse_command ''/nb 1'' ex_fresh = Raises IndexError ex_fresh
   \<and> parse_command ''/nb 2'' ex_fresh =
       Returns ()
         (ex_fresh\<lparr>right_text := right_text ex_fresh @ nl @ nl @
             ''new-branch for level 2 also requires a prompt (e.g. /nb 2 Hello, world!)''\<rparr>)
   \<and> parse_command ''/nb 3'' ex_answered = Raises IndexError ex_answered"
  unfolding ex_fresh_def ex_fresh_tree_def ex_answered_def ex_asked_def ex_env_def by code_simp

end
